theory Spec2Isabelle
  imports Complex_Main
begin

section \<open>Bayesian linear regression example: data model\<close>

text \<open>
  The example script \<^verbatim>\<open>examples/bayesian_linear_regression.py\<close> is embedded over the
  real numbers: a rank-1 tensor is a list of reals, a rank-2 tensor is the list of its
  rows. The real-valued embedding leaves out the rounding of 32-bit floats; a second
  embedding of \<open>log_prob\<close> on 32-bit floats follows it. Exceptions are values
  of type \<open>error\<close>: every exception that numpy and TensorFlow raise on the operations
  used here is a \<open>ValueError\<close>; \<open>FrameworkError\<close> stands for any other exception
  raised inside the library.
\<close>

type_synonym vec = "real list"
type_synonym mat = "real list list"

datatype error = ValueError | FrameworkError

record LinearModel =
  lik_variance :: real
  prior_variance :: real
  num_vars :: int

text \<open>\<^verbatim>\<open>LinearModel.__init__(self, lik_variance=0.01, prior_variance=0.01)\<close>.\<close>

definition LinearModel_init :: "real \<Rightarrow> real \<Rightarrow> LinearModel" where
  "LinearModel_init lv pv = \<lparr>lik_variance = lv, prior_variance = pv, num_vars = 2\<rparr>"

definition LinearModel_default :: LinearModel where
  "LinearModel_default = LinearModel_init (1 / 100) (1 / 100)"

section \<open>Tensor operations used by \<open>log_prob\<close>\<close>

text \<open>\<^verbatim>\<open>t[:, k]\<close>: column \<open>k\<close> of a rank-2 tensor; out of bounds when a row is too short.\<close>

definition slice_col :: "nat \<Rightarrow> mat \<Rightarrow> error + vec" where
  "slice_col k t =
     (if list_all (\<lambda>r. k < length r) t then Inr (map (\<lambda>r. r ! k) t) else Inl ValueError)"

text \<open>\<^verbatim>\<open>a * b\<close> on two rank-2 tensors of the same shape.\<close>

definition tf_mul :: "mat \<Rightarrow> mat \<Rightarrow> mat" where
  "tf_mul a b = map2 (map2 (*)) a b"

text \<open>\<^verbatim>\<open>tf.reduce_sum(t, 1)\<close>: the sum of each row.\<close>

definition reduce_sum_1 :: "mat \<Rightarrow> vec" where
  "reduce_sum_1 t = map sum_list t"

text \<open>
  \<^verbatim>\<open>tf.reduce_sum(t, 0)\<close>: the sum of each column. The list of rows does not carry
  the column count of a tensor with no rows, so it is passed as \<open>c\<close>.
\<close>

definition reduce_sum_0 :: "nat \<Rightarrow> mat \<Rightarrow> vec" where
  "reduce_sum_0 c t = foldr (map2 (+)) t (replicate c 0)"

text \<open>\<^verbatim>\<open>tf.expand_dims(v, 1)\<close> (a column) and \<^verbatim>\<open>tf.expand_dims(v, 0)\<close> (a row).\<close>

definition expand_dims_1 :: "vec \<Rightarrow> mat" where
  "expand_dims_1 v = map (\<lambda>a. [a]) v"

definition expand_dims_0 :: "vec \<Rightarrow> mat" where
  "expand_dims_0 v = [v]"

text \<open>\<^verbatim>\<open>tf.matmul(a, b)\<close>: every row of \<open>a\<close> must be as long as \<open>b\<close> has rows.\<close>

definition ncols :: "mat \<Rightarrow> nat" where
  "ncols t = (case t of [] \<Rightarrow> 0 | r # _ \<Rightarrow> length r)"

definition matmul :: "mat \<Rightarrow> mat \<Rightarrow> error + mat" where
  "matmul a b =
     (if list_all (\<lambda>r. length r = length b) a
      then Inr (map (\<lambda>r. map (\<lambda>j. sum_list (map2 (*) r (map (\<lambda>br. br ! j) b)))
                               [0..<ncols b]) a)
      else Inl ValueError)"

text \<open>
  The two broadcasts of \<open>log_prob\<close>: \<^verbatim>\<open>m + b\<close> adds the vector \<open>b\<close> to every row
  of \<open>m\<close> (shapes \<open>n \<times> S\<close> and \<open>S\<close>), and \<^verbatim>\<open>m - y\<close> subtracts from row \<open>i\<close> of \<open>m\<close> the
  single entry of row \<open>i\<close> of the column \<open>y\<close> (shapes \<open>n \<times> S\<close> and \<open>n \<times> 1\<close>). Both
  operands of each come from the same tensor, so the shapes always agree.
\<close>

definition add_rowvec :: "mat \<Rightarrow> vec \<Rightarrow> mat" where
  "add_rowvec m b = map (\<lambda>r. map2 (+) r b) m"

definition sub_colvec :: "mat \<Rightarrow> mat \<Rightarrow> mat" where
  "sub_colvec m y = map2 (\<lambda>r yr. map (\<lambda>a. a - hd yr) r) m y"

text \<open>\<^verbatim>\<open>tf.pow(t, 2)\<close>, elementwise.\<close>

definition tf_pow :: "mat \<Rightarrow> nat \<Rightarrow> mat" where
  "tf_pow t k = map (map (\<lambda>a. a ^ k)) t"

section \<open>\<open>LinearModel.log_prob\<close>\<close>

text \<open>
  Lines 47 and 50 to 53: the matrix \<open>mus\<close> of predicted outputs, one row per data
  point and one column per sample.
\<close>

definition log_prob_mus :: "mat \<Rightarrow> mat \<Rightarrow> error + mat" where
  "log_prob_mus xs zs =
     (case slice_col 1 xs of Inl e \<Rightarrow> Inl e | Inr x0 \<Rightarrow>
      let x = expand_dims_1 x0 in
      case slice_col 0 zs of Inl e \<Rightarrow> Inl e | Inr W0 \<Rightarrow>
      let W = expand_dims_0 W0 in
      case slice_col 1 zs of Inl e \<Rightarrow> Inl e | Inr b \<Rightarrow>
      case matmul x W of Inl e \<Rightarrow> Inl e | Inr xW \<Rightarrow>
      Inr (add_rowvec xW b))"

definition log_prob :: "LinearModel \<Rightarrow> mat \<Rightarrow> mat \<Rightarrow> error + vec" where
  "log_prob self xs zs =
     (case slice_col 0 xs of Inl e \<Rightarrow> Inl e | Inr y0 \<Rightarrow>
      let log_prior = map (\<lambda>a. (- prior_variance self) * a) (reduce_sum_1 (tf_mul zs zs)) in
      case log_prob_mus xs zs of Inl e \<Rightarrow> Inl e | Inr mus \<Rightarrow>
      let y = expand_dims_1 y0;
          log_lik = map (\<lambda>a. (- a) / lik_variance self)
                        (reduce_sum_0 (length zs) (tf_pow (sub_colvec mus y) 2))
      in Inr (map2 (+) log_lik log_prior))"

text \<open>
  The method call with the receiver passed through: \<open>log_prob\<close> assigns to no
  attribute of \<open>self\<close>, so the model object comes back as it went in.
\<close>

definition log_prob_call ::
  "LinearModel \<Rightarrow> mat \<Rightarrow> mat \<Rightarrow> (error + vec) \<times> LinearModel" where
  "log_prob_call self xs zs = (log_prob self xs zs, self)"

text \<open>A tensor of shape \<open>n \<times> 2\<close>.\<close>

definition two_cols :: "mat \<Rightarrow> bool" where
  "two_cols t = list_all (\<lambda>r. length r = 2) t"

text \<open>
  What \<open>log_prob\<close> computes for one sample \<open>z\<close>: minus the sum of squared residuals
  over \<open>lik_variance\<close>, plus minus \<open>prior_variance\<close> times the sum of the squared weights.
\<close>

definition log_prob_entry :: "LinearModel \<Rightarrow> mat \<Rightarrow> vec \<Rightarrow> real" where
  "log_prob_entry self xs z =
     (- (\<Sum>r\<leftarrow>xs. (r ! 1 * z ! 0 + z ! 1 - r ! 0) ^ 2)) / lik_variance self
     + (- prior_variance self) * (z ! 0 * z ! 0 + z ! 1 * z ! 1)"

section \<open>The Gaussian log-joint of the documentation\<close>

text \<open>
  The class docstring gives the model as
  \<^verbatim>\<open>p((x,y), z) = Normal(y | x*z, lik_variance) * Normal(z | 0, prior_variance)\<close>
  with both parameters variances, and the docstring of \<open>log_prob\<close> promises the vector of
  \<^verbatim>\<open>log p(xs, zs[s,:])\<close>. The two definitions below follow those words, not the code:
  the logarithm of the normal density with mean \<open>mu\<close> and variance \<open>var\<close>, and the
  log-likelihood of the data plus the log-prior of the two weights.
\<close>

definition normal_logpdf :: "real \<Rightarrow> real \<Rightarrow> real \<Rightarrow> real" where
  "normal_logpdf y mu var = - ln (2 * pi * var) / 2 - (y - mu) ^ 2 / (2 * var)"

definition gaussian_log_joint :: "LinearModel \<Rightarrow> mat \<Rightarrow> vec \<Rightarrow> real" where
  "gaussian_log_joint self xs z =
     (\<Sum>r\<leftarrow>xs. normal_logpdf (r ! 0) (r ! 1 * z ! 0 + z ! 1) (lik_variance self))
     + (\<Sum>a\<leftarrow>z. normal_logpdf a 0 (prior_variance self))"

section \<open>The framework and the global state\<close>

text \<open>
  The script calls into the library (\<open>ed.set_seed\<close>, \<open>norm.rvs\<close>, \<open>Variational\<close>,
  \<open>Normal\<close>, \<open>ed.Data\<close>, \<open>ed.MFVI\<close>, \<open>inference.run\<close>), whose code is not part of the
  example file. The library is a parameter of the model: a record \<open>framework\<close> of the
  generator state that seeding with an integer produces, of the sampler behind
  \<open>norm.rvs(loc, scale, size)\<close> and of the run loop of the inference object; the sampler
  and the run loop take the generator state and return the new one, and may raise.

  The global state is the generator state \<open>rng\<close> together with \<open>trace\<close>, the list of
  the calls made so far in execution order.
\<close>

datatype factor = Normal int

type_synonym Variational = "factor list"

datatype Data = Data mat

datatype MFVI = MFVI LinearModel Variational Data

type_synonym options = "(string \<times> int) list"

datatype event =
    SetSeed int
  | NewLinearModel
  | NewVariational
  | VariationalAdd factor
  | NormRvs real real int
  | NewData
  | NewMFVI
  | InferenceRun options

record 'g world =
  rng :: 'g
  trace :: "event list"

record 'g framework =
  seed_rng :: "int \<Rightarrow> 'g"
  rvs :: "real \<Rightarrow> real \<Rightarrow> int \<Rightarrow> 'g \<Rightarrow> (error + vec) \<times> 'g"
  run_loop :: "MFVI \<Rightarrow> options \<Rightarrow> 'g \<Rightarrow> (error + unit) \<times> 'g"

definition emit :: "event \<Rightarrow> 'g world \<Rightarrow> 'g world" where
  "emit e w = w\<lparr>trace := trace w @ [e]\<rparr>"

text \<open>
  The constructors \<^verbatim>\<open>LinearModel()\<close>, \<^verbatim>\<open>Variational()\<close>, \<^verbatim>\<open>ed.Data(data)\<close> and
  \<^verbatim>\<open>ed.MFVI(model, variational, data)\<close>, and the method \<^verbatim>\<open>variational.add(f)\<close>.
\<close>

definition new_LinearModel :: "'g world \<Rightarrow> LinearModel \<times> 'g world" where
  "new_LinearModel w = (LinearModel_default, emit NewLinearModel w)"

definition new_Variational :: "'g world \<Rightarrow> Variational \<times> 'g world" where
  "new_Variational w = ([], emit NewVariational w)"

definition Variational_add :: "Variational \<Rightarrow> factor \<Rightarrow> 'g world \<Rightarrow> Variational \<times> 'g world" where
  "Variational_add v f w = (v @ [f], emit (VariationalAdd f) w)"

definition new_Data :: "mat \<Rightarrow> 'g world \<Rightarrow> Data \<times> 'g world" where
  "new_Data t w = (Data t, emit NewData w)"

definition new_MFVI ::
  "LinearModel \<Rightarrow> Variational \<Rightarrow> Data \<Rightarrow> 'g world \<Rightarrow> MFVI \<times> 'g world" where
  "new_MFVI model variational data w = (MFVI model variational data, emit NewMFVI w)"

text \<open>\<^verbatim>\<open>ed.set_seed(x)\<close> replaces the generator state by the one seeded with \<open>x\<close>.\<close>

definition ed_set_seed :: "'g framework \<Rightarrow> int \<Rightarrow> 'g world \<Rightarrow> 'g world" where
  "ed_set_seed fw x w = emit (SetSeed x) (w\<lparr>rng := seed_rng fw x\<rparr>)"

text \<open>\<^verbatim>\<open>norm.rvs(loc, scale, size=size)\<close> draws from the global generator.\<close>

definition norm_rvs ::
  "'g framework \<Rightarrow> real \<Rightarrow> real \<Rightarrow> int \<Rightarrow> 'g world \<Rightarrow> (error + vec) \<times> 'g world" where
  "norm_rvs fw loc scale sz w =
     (case rvs fw loc scale sz (rng w) of
        (r, g) \<Rightarrow> (r, emit (NormRvs loc scale sz) (w\<lparr>rng := g\<rparr>)))"

text \<open>\<^verbatim>\<open>inference.run(**options)\<close>.\<close>

definition inference_run ::
  "'g framework \<Rightarrow> MFVI \<Rightarrow> options \<Rightarrow> 'g world \<Rightarrow> (error + unit) \<times> 'g world" where
  "inference_run fw inference opts w =
     (case run_loop fw inference opts (rng w) of
        (r, g) \<Rightarrow> (r, emit (InferenceRun opts) (w\<lparr>rng := g\<rparr>)))"

section \<open>numpy operations used by \<open>build_toy_dataset\<close>\<close>

text \<open>
  \<^verbatim>\<open>np.linspace(start, stop, num=num)\<close>: \<open>num\<close> evenly spaced points from \<open>start\<close> to
  \<open>stop\<close> inclusive; a single point is \<open>start\<close>; a negative \<open>num\<close> raises.
\<close>

definition linspace_pts :: "real \<Rightarrow> real \<Rightarrow> nat \<Rightarrow> vec" where
  "linspace_pts start stop k =
     (if k = 1 then [start]
      else map (\<lambda>i. start + real i * ((stop - start) / real (k - 1))) [0..<k])"

definition linspace :: "real \<Rightarrow> real \<Rightarrow> int \<Rightarrow> error + vec" where
  "linspace start stop num =
     (if num < 0 then Inl ValueError else Inr (linspace_pts start stop (nat num)))"

text \<open>
  \<^verbatim>\<open>a + b\<close> on two rank-1 arrays: equal lengths add pointwise, a length-1 operand is
  broadcast, anything else raises.
\<close>

definition np_add :: "vec \<Rightarrow> vec \<Rightarrow> error + vec" where
  "np_add a b =
     (if length a = length b then Inr (map2 (+) a b)
      else if length a = 1 then Inr (map (\<lambda>v. hd a + v) b)
      else if length b = 1 then Inr (map (\<lambda>v. v + hd b) a)
      else Inl ValueError)"

text \<open>
  \<^verbatim>\<open>v.reshape((n, 1))\<close>: the array must have \<open>n\<close> elements; \<open>n = -1\<close> asks numpy to
  infer the row count.
\<close>

definition reshape_col :: "vec \<Rightarrow> int \<Rightarrow> error + mat" where
  "reshape_col v n =
     (if n = - 1 \<or> (0 \<le> n \<and> int (length v) = n) then Inr (map (\<lambda>a. [a]) v)
      else Inl ValueError)"

text \<open>\<^verbatim>\<open>np.concatenate((a, b), axis=1)\<close>: both need the same number of rows.\<close>

definition concatenate_1 :: "mat \<Rightarrow> mat \<Rightarrow> error + mat" where
  "concatenate_1 a b =
     (if length a = length b then Inr (map2 (@) a b) else Inl ValueError)"

section \<open>\<open>build_toy_dataset\<close>\<close>

text \<open>
  \<^verbatim>\<open>n_data/2\<close> on two integers is the floor division of Python 2, for which the
  script was written. \<^verbatim>\<open>tf.constant(data, dtype=tf.float32)\<close> is the identity on the
  reals. An exception leaves the global state as it was when raised.
\<close>

definition toy_inputs :: "int \<Rightarrow> error + vec" where
  "toy_inputs n_data =
     (case linspace 0 2 (n_data div 2) of Inl e \<Rightarrow> Inl e | Inr xa \<Rightarrow>
      case linspace 6 8 (n_data div 2) of Inl e \<Rightarrow> Inl e | Inr xb \<Rightarrow>
      Inr (xa @ xb))"

definition build_toy_dataset ::
  "'g framework \<Rightarrow> int \<Rightarrow> real \<Rightarrow> 'g world \<Rightarrow> (error + Data) \<times> 'g world" where
  "build_toy_dataset fw n_data noise_std w0 =
     (let w1 = ed_set_seed fw 0 w0 in
      case toy_inputs n_data of Inl e \<Rightarrow> (Inl e, w1) | Inr x \<Rightarrow>
      case norm_rvs fw 0 noise_std n_data w1 of
        (Inl e, w2) \<Rightarrow> (Inl e, w2)
      | (Inr noise, w2) \<Rightarrow>
      case np_add (map (\<lambda>v. (75 / 1000) * v) x) noise of Inl e \<Rightarrow> (Inl e, w2) | Inr y \<Rightarrow>
      let x = map (\<lambda>v. (v - 4) / 4) x in
      case reshape_col x n_data of Inl e \<Rightarrow> (Inl e, w2) | Inr x \<Rightarrow>
      case reshape_col y n_data of Inl e \<Rightarrow> (Inl e, w2) | Inr y \<Rightarrow>
      case concatenate_1 y x of Inl e \<Rightarrow> (Inl e, w2) | Inr data \<Rightarrow>
      case new_Data data w2 of (d, w3) \<Rightarrow> (Inr d, w3))"

section \<open>The top level of the script\<close>

definition run_options :: options where
  "run_options = [(''n_iter'', 250), (''n_minibatch'', 5), (''n_print'', 10)]"

text \<open>
  The statements of the module in source order. \<^verbatim>\<open>LinearModel()\<close> and
  \<^verbatim>\<open>build_toy_dataset()\<close> take their defaults: both variances \<open>0.01\<close>,
  \<open>n_data = 40\<close>, \<open>noise_std = 0.1\<close>. An exception ends the script.
\<close>

definition main :: "'g framework \<Rightarrow> 'g world \<Rightarrow> (error + unit) \<times> 'g world" where
  "main fw w0 =
     (let w1 = ed_set_seed fw 42 w0;
          (model, w2) = new_LinearModel w1;
          (variational, w3) = new_Variational w2;
          (variational, w4) = Variational_add variational (Normal (num_vars model)) w3
      in case build_toy_dataset fw 40 (1 / 10) w4 of
           (Inl e, w5) \<Rightarrow> (Inl e, w5)
         | (Inr data, w5) \<Rightarrow>
             let (inference, w6) = new_MFVI model variational data w5
             in inference_run fw inference run_options w6)"

text \<open>The options of every run-loop call in a trace, and the order of two calls.\<close>

fun run_calls :: "event list \<Rightarrow> options list" where
  "run_calls [] = []"
| "run_calls (InferenceRun opts # t) = opts # run_calls t"
| "run_calls (_ # t) = run_calls t"

definition precedes :: "event \<Rightarrow> event \<Rightarrow> event list \<Rightarrow> bool" where
  "precedes a b t = (b \<in> set (dropWhile (\<lambda>e. e \<noteq> a) t))"

section \<open>A framework instance for concrete runs\<close>

text \<open>
  A stand-in for the library on which the script can be evaluated: the generator state
  is the seed and the number of values drawn since seeding, every draw equals \<open>loc\<close>
  (no noise), a negative size or scale raises, and the run loop returns at once.
\<close>

definition quiet_framework :: "(int \<times> nat) framework" where
  "quiet_framework =
     \<lparr>seed_rng = (\<lambda>s. (s, 0)),
      rvs = (\<lambda>loc scale sz (s, k).
               if sz < 0 \<or> scale < 0 then (Inl ValueError, (s, k))
               else (Inr (replicate (nat sz) loc), (s, k + nat sz))),
      run_loop = (\<lambda>inference opts g. (Inr (), g))\<rparr>"

definition start_world :: "(int \<times> nat) world" where
  "start_world = \<lparr>rng = (0, 0), trace = []\<rparr>"

section \<open>\<open>log_prob\<close> on 32-bit floats\<close>

text \<open>
  The tensors of the script hold 32-bit floats, and the two variances are Python floats
  that TensorFlow converts to 32-bit floats when they meet a tensor. Where a claim
  depends on rounding, underflow, infinities or NaN, \<open>log_prob\<close> is embedded a second time
  over the type \<open>f32\<close>: a finite value, plus or minus infinity, or NaN. The sign of a
  zero is not tracked: it can be observed only by dividing by that zero, and the only
  divisor in \<open>log_prob\<close> is the converted \<open>lik_variance\<close>, whose sign is that of the
  Python float.
\<close>

datatype f32 = Fin real | PInf | NInf | NaN

text \<open>
  Conversion to binary32, rounding to nearest with ties to even: 24 significant bits,
  exponents from \<open>-126\<close> to \<open>127\<close>, gradual underflow below \<open>2 ^ -126\<close> (so anything
  smaller in magnitude than \<open>2 ^ -150\<close> becomes zero), and overflow to infinity.
  \<open>rne\<close> rounds a real to the nearest integer, ties to even; \<open>f32_exponent\<close> is the
  exponent of the binade of \<open>x\<close>.
\<close>

definition rne :: "real \<Rightarrow> int" where
  "rne q =
     (let f = \<lfloor>q\<rfloor>; d = q - of_int f
      in if d < 1 / 2 then f else if 1 / 2 < d then f + 1 else if even f then f else f + 1)"

definition f32_exponent :: "real \<Rightarrow> int" where
  "f32_exponent x =
     (case find (\<lambda>e. \<bar>x\<bar> < 2 powi (e + 1)) [- 126..127] of Some e \<Rightarrow> e | None \<Rightarrow> 128)"

definition round_f32 :: "real \<Rightarrow> f32" where
  "round_f32 x =
     (let u = 2 powi (f32_exponent x - 23);
          y = of_int (rne (x / u)) * u
      in if 2 powi 128 \<le> \<bar>y\<bar> then (if 0 < x then PInf else NInf) else Fin y)"

text \<open>Negation, addition, subtraction and multiplication of two 32-bit floats.\<close>

fun fneg :: "f32 \<Rightarrow> f32" where
  "fneg (Fin a) = Fin (- a)"
| "fneg PInf = NInf"
| "fneg NInf = PInf"
| "fneg NaN = NaN"

fun fadd :: "f32 \<Rightarrow> f32 \<Rightarrow> f32" where
  "fadd (Fin a) (Fin b) = round_f32 (a + b)"
| "fadd NaN _ = NaN"
| "fadd _ NaN = NaN"
| "fadd PInf NInf = NaN"
| "fadd NInf PInf = NaN"
| "fadd PInf _ = PInf"
| "fadd _ PInf = PInf"
| "fadd NInf _ = NInf"
| "fadd _ NInf = NInf"

definition fsub :: "f32 \<Rightarrow> f32 \<Rightarrow> f32" where
  "fsub a b = fadd a (fneg b)"

fun fmul :: "f32 \<Rightarrow> f32 \<Rightarrow> f32" where
  "fmul (Fin a) (Fin b) = round_f32 (a * b)"
| "fmul NaN _ = NaN"
| "fmul _ NaN = NaN"
| "fmul (Fin a) PInf = (if a = 0 then NaN else if 0 < a then PInf else NInf)"
| "fmul (Fin a) NInf = (if a = 0 then NaN else if 0 < a then NInf else PInf)"
| "fmul PInf (Fin b) = (if b = 0 then NaN else if 0 < b then PInf else NInf)"
| "fmul NInf (Fin b) = (if b = 0 then NaN else if 0 < b then NInf else PInf)"
| "fmul PInf PInf = PInf"
| "fmul NInf NInf = PInf"
| "fmul PInf NInf = NInf"
| "fmul NInf PInf = NInf"

text \<open>
  \<^verbatim>\<open>a / s\<close> for a tensor entry \<open>a\<close> and a Python float \<open>s\<close>, which is converted first.
  Zero over zero and infinity over infinity are NaN; a non-zero value over a zero is an
  infinity whose sign is the product of the signs.
\<close>

definition fdiv_scalar :: "f32 \<Rightarrow> real \<Rightarrow> f32" where
  "fdiv_scalar a s =
     (case round_f32 s of
        Fin d \<Rightarrow>
          if d = 0 then
            (case a of
               Fin x \<Rightarrow> if x = 0 then NaN else if (x < 0) = (s < 0) then PInf else NInf
             | PInf \<Rightarrow> if s < 0 then NInf else PInf
             | NInf \<Rightarrow> if s < 0 then PInf else NInf
             | NaN \<Rightarrow> NaN)
          else
            (case a of
               Fin x \<Rightarrow> round_f32 (x / d)
             | PInf \<Rightarrow> if 0 < d then PInf else NInf
             | NInf \<Rightarrow> if 0 < d then NInf else PInf
             | NaN \<Rightarrow> NaN)
      | PInf \<Rightarrow> (case a of Fin x \<Rightarrow> Fin 0 | _ \<Rightarrow> NaN)
      | NInf \<Rightarrow> (case a of Fin x \<Rightarrow> Fin 0 | _ \<Rightarrow> NaN)
      | NaN \<Rightarrow> NaN)"

text \<open>
  A sum of floats, added from the right starting at zero. The order in which
  \<^verbatim>\<open>tf.reduce_sum\<close> and \<^verbatim>\<open>tf.matmul\<close> add is the library's.
\<close>

definition fsum :: "f32 list \<Rightarrow> f32" where
  "fsum v = foldr fadd v (Fin 0)"

text \<open>
  Finite values, positive finite values, and the comparisons \<^verbatim>\<open>a <= 0\<close> and
  \<^verbatim>\<open>a >= 0\<close>, which are false on NaN.
\<close>

fun f32_finite :: "f32 \<Rightarrow> bool" where
  "f32_finite (Fin a) = True"
| "f32_finite _ = False"

fun f32_pos :: "f32 \<Rightarrow> bool" where
  "f32_pos (Fin a) = (0 < a)"
| "f32_pos _ = False"

fun f32_le_zero :: "f32 \<Rightarrow> bool" where
  "f32_le_zero (Fin a) = (a \<le> 0)"
| "f32_le_zero NInf = True"
| "f32_le_zero _ = False"

fun f32_nonneg :: "f32 \<Rightarrow> bool" where
  "f32_nonneg (Fin a) = (0 \<le> a)"
| "f32_nonneg PInf = True"
| "f32_nonneg _ = False"

text \<open>The tensor operations of \<open>log_prob\<close> on 32-bit floats.\<close>

type_synonym vec32 = "f32 list"
type_synonym mat32 = "f32 list list"

definition slice_col_f32 :: "nat \<Rightarrow> mat32 \<Rightarrow> error + vec32" where
  "slice_col_f32 k t =
     (if list_all (\<lambda>r. k < length r) t then Inr (map (\<lambda>r. r ! k) t) else Inl ValueError)"

definition tf_mul_f32 :: "mat32 \<Rightarrow> mat32 \<Rightarrow> mat32" where
  "tf_mul_f32 a b = map2 (map2 fmul) a b"

definition reduce_sum_1_f32 :: "mat32 \<Rightarrow> vec32" where
  "reduce_sum_1_f32 t = map fsum t"

definition reduce_sum_0_f32 :: "nat \<Rightarrow> mat32 \<Rightarrow> vec32" where
  "reduce_sum_0_f32 c t = foldr (map2 fadd) t (replicate c (Fin 0))"

definition expand_dims_1_f32 :: "vec32 \<Rightarrow> mat32" where
  "expand_dims_1_f32 v = map (\<lambda>a. [a]) v"

definition expand_dims_0_f32 :: "vec32 \<Rightarrow> mat32" where
  "expand_dims_0_f32 v = [v]"

definition ncols_f32 :: "mat32 \<Rightarrow> nat" where
  "ncols_f32 t = (case t of [] \<Rightarrow> 0 | r # _ \<Rightarrow> length r)"

definition matmul_f32 :: "mat32 \<Rightarrow> mat32 \<Rightarrow> error + mat32" where
  "matmul_f32 a b =
     (if list_all (\<lambda>r. length r = length b) a
      then Inr (map (\<lambda>r. map (\<lambda>j. fsum (map2 fmul r (map (\<lambda>br. br ! j) b)))
                               [0..<ncols_f32 b]) a)
      else Inl ValueError)"

definition add_rowvec_f32 :: "mat32 \<Rightarrow> vec32 \<Rightarrow> mat32" where
  "add_rowvec_f32 m b = map (\<lambda>r. map2 fadd r b) m"

definition sub_colvec_f32 :: "mat32 \<Rightarrow> mat32 \<Rightarrow> mat32" where
  "sub_colvec_f32 m y = map2 (\<lambda>r yr. map (\<lambda>a. fsub a (hd yr)) r) m y"

text \<open>\<^verbatim>\<open>tf.pow(t, 2)\<close>: every entry times itself, rounded.\<close>

definition tf_pow_2_f32 :: "mat32 \<Rightarrow> mat32" where
  "tf_pow_2_f32 t = map (map (\<lambda>a. fmul a a)) t"

text \<open>\<open>LinearModel.log_prob\<close>, lines 46 to 57, on 32-bit floats.\<close>

definition log_prob_f32 :: "LinearModel \<Rightarrow> mat32 \<Rightarrow> mat32 \<Rightarrow> error + vec32" where
  "log_prob_f32 self xs zs =
     (case slice_col_f32 0 xs of Inl e \<Rightarrow> Inl e | Inr y \<Rightarrow>
      case slice_col_f32 1 xs of Inl e \<Rightarrow> Inl e | Inr x \<Rightarrow>
      let log_prior = map (fmul (round_f32 (- prior_variance self)))
                          (reduce_sum_1_f32 (tf_mul_f32 zs zs));
          x = expand_dims_1_f32 x in
      case slice_col_f32 0 zs of Inl e \<Rightarrow> Inl e | Inr W0 \<Rightarrow>
      let W = expand_dims_0_f32 W0 in
      case slice_col_f32 1 zs of Inl e \<Rightarrow> Inl e | Inr b \<Rightarrow>
      case matmul_f32 x W of Inl e \<Rightarrow> Inl e | Inr xW \<Rightarrow>
      let mus = add_rowvec_f32 xW b;
          y = expand_dims_1_f32 y;
          log_lik = map (\<lambda>a. fdiv_scalar (fneg a) (lik_variance self))
                        (reduce_sum_0_f32 (length zs) (tf_pow_2_f32 (sub_colvec_f32 mus y)))
      in Inr (map2 fadd log_lik log_prior))"

text \<open>A float tensor of shape \<open>n \<times> 2\<close> with finite entries.\<close>

definition finite_two_cols :: "mat32 \<Rightarrow> bool" where
  "finite_two_cols t = list_all (\<lambda>r. length r = 2 \<and> list_all f32_finite r) t"

text \<open>
  What \<open>log_prob_f32\<close> computes for one sample \<open>z\<close>: the squared residual of a data row
  \<open>r\<close>, and the entry of the result.
\<close>

definition residual_sq_f32 :: "vec32 \<Rightarrow> vec32 \<Rightarrow> f32" where
  "residual_sq_f32 z r =
     (let d = fsub (fadd (fsum [fmul (r ! 1) (z ! 0)]) (z ! 1)) (r ! 0) in fmul d d)"

definition log_prob_f32_entry :: "LinearModel \<Rightarrow> mat32 \<Rightarrow> vec32 \<Rightarrow> f32" where
  "log_prob_f32_entry self xs z =
     fadd (fdiv_scalar (fneg (fsum (map (residual_sq_f32 z) xs))) (lik_variance self))
          (fmul (round_f32 (- prior_variance self)) (fsum (map2 fmul z z)))"

section \<open>Properties of the tensor operations\<close>

lemma slice_col_two_cols:
  assumes "two_cols t" and "k < 2"
  shows "slice_col k t = Inr (map (\<lambda>r. r ! k) t)"
proof -
  have "list_all (\<lambda>r. k < length r) t"
    using assms by (simp add: two_cols_def list_all_iff)
  then show ?thesis by (simp add: slice_col_def)
qed

lemma matmul_col_row:
  "matmul (expand_dims_1 x) (expand_dims_0 W) = Inr (map (\<lambda>a. map (\<lambda>w. a * w) W) x)"
proof -
  have "map (\<lambda>j. a * W ! j) [0..<length W] = map (\<lambda>w. a * w) W" for a
    by (rule nth_equalityI) simp_all
  then show ?thesis
    by (simp add: matmul_def expand_dims_1_def expand_dims_0_def ncols_def
        list_all_iff comp_def)
qed

lemma map2_same_length_map:
  "map2 f (map g zs) (map h zs) = map (\<lambda>z. f (g z) (h z)) zs"
  by (induction zs) simp_all

lemma reduce_sum_0_map:
  "reduce_sum_0 (length zs) (map (\<lambda>r. map (f r) zs) xs)
     = map (\<lambda>z. \<Sum>r\<leftarrow>xs. f r z) zs"
proof (induction xs)
  case Nil
  show ?case
    by (rule nth_equalityI) (simp_all add: reduce_sum_0_def)
next
  case (Cons r xs)
  have "reduce_sum_0 (length zs) (map (\<lambda>r. map (f r) zs) (r # xs))
          = map2 (+) (map (f r) zs) (reduce_sum_0 (length zs) (map (\<lambda>r. map (f r) zs) xs))"
    by (simp add: reduce_sum_0_def)
  also have "\<dots> = map2 (+) (map (f r) zs) (map (\<lambda>z. \<Sum>r\<leftarrow>xs. f r z) zs)"
    by (simp only: Cons.IH)
  also have "\<dots> = map (\<lambda>z. f r z + (\<Sum>r\<leftarrow>xs. f r z)) zs"
    by (rule map2_same_length_map)
  finally show ?case by simp
qed

lemma log_prob_mus_two_cols:
  assumes "two_cols xs" and "two_cols zs"
  shows "log_prob_mus xs zs = Inr (map (\<lambda>r. map (\<lambda>z. r ! 1 * z ! 0 + z ! 1) zs) xs)"
proof -
  have "add_rowvec (map (\<lambda>a. map (\<lambda>w. a * w) (map (\<lambda>z. z ! 0) zs)) (map (\<lambda>r. r ! 1) xs))
                   (map (\<lambda>z. z ! 1) zs)
          = map (\<lambda>r. map (\<lambda>z. r ! 1 * z ! 0 + z ! 1) zs) xs"
    by (simp add: add_rowvec_def comp_def map2_same_length_map [where g = "\<lambda>z. a * z ! 0" for a, simplified])
  then show ?thesis
    using assms
    by (simp add: log_prob_mus_def slice_col_two_cols matmul_col_row)
qed

section \<open>Properties of \<open>log_prob\<close>\<close>

lemma map2_diag: "map2 f zs zs = map (\<lambda>z. f z z) zs"
  by (induction zs) simp_all

lemma sum_sq_two:
  assumes "length z = 2"
  shows "sum_list (map2 (*) z z) = z ! 0 * z ! 0 + z ! 1 * (z ! 1 :: real)"
proof -
  from assms obtain a b where "z = [a, b]"
    by (auto simp: length_Suc_conv numeral_2_eq_2)
  then show ?thesis by simp
qed

lemma log_prior_two_cols:
  assumes "two_cols zs"
  shows "reduce_sum_1 (tf_mul zs zs) = map (\<lambda>z. z ! 0 * z ! 0 + z ! 1 * z ! 1) zs"
proof -
  have "map (\<lambda>z. sum_list (map2 (*) z z)) zs = map (\<lambda>z. z ! 0 * z ! 0 + z ! 1 * z ! 1) zs"
    using assms by (intro map_cong refl sum_sq_two) (simp add: two_cols_def list_all_iff)
  then show ?thesis
    by (simp add: reduce_sum_1_def tf_mul_def map2_diag comp_def)
qed

lemma sub_colvec_map:
  "sub_colvec (map (\<lambda>r. map (g r) zs) xs) (expand_dims_1 (map h xs))
     = map (\<lambda>r. map (\<lambda>z. g r z - h r) zs) xs"
  by (simp add: sub_colvec_def expand_dims_1_def comp_def
      map2_same_length_map [where g = "\<lambda>r. map (g r) zs" and h = "\<lambda>r. [h r]", simplified])

lemma log_prob_two_cols:
  assumes "two_cols xs" and "two_cols zs"
  shows "log_prob self xs zs = Inr (map (log_prob_entry self xs) zs)"
proof -
  let ?g = "\<lambda>r z. (r ! 1 * z ! 0 + z ! 1 - r ! 0) ^ 2"
  have lik: "reduce_sum_0 (length zs)
        (tf_pow (sub_colvec (map (\<lambda>r. map (\<lambda>z. r ! 1 * z ! 0 + z ! 1) zs) xs)
                            (expand_dims_1 (map (\<lambda>r. r ! 0) xs))) 2)
      = map (\<lambda>z. \<Sum>r\<leftarrow>xs. ?g r z) zs"
  proof -
    have "tf_pow (sub_colvec (map (\<lambda>r. map (\<lambda>z. r ! 1 * z ! 0 + z ! 1) zs) xs)
                            (expand_dims_1 (map (\<lambda>r. r ! 0) xs))) 2
            = map (\<lambda>r. map (?g r) zs) xs"
      by (simp add: sub_colvec_map tf_pow_def comp_def)
    then show ?thesis
      by (simp only: reduce_sum_0_map)
  qed
  have "map2 (+) (map (\<lambda>a. (- a) / lik_variance self) (map (\<lambda>z. \<Sum>r\<leftarrow>xs. ?g r z) zs))
                 (map (\<lambda>a. (- prior_variance self) * a)
                      (map (\<lambda>z. z ! 0 * z ! 0 + z ! 1 * z ! 1) zs))
          = map (log_prob_entry self xs) zs"
    unfolding map_map comp_def log_prob_entry_def by (rule map2_same_length_map)
  moreover have "slice_col 0 xs = Inr (map (\<lambda>r. r ! 0) xs)"
    using assms(1) by (simp add: slice_col_two_cols)
  moreover note log_prob_mus_two_cols [OF assms] log_prior_two_cols [OF assms(2)] lik
  ultimately show ?thesis
    by (simp only: log_prob_def Let_def sum.case)
qed


lemma ln_two_pi_hundredth: "- 24 \<le> ln (2 * pi * (1 / 100))"
proof -
  let ?t = "2 * pi * (1 / 100)"
  have pos: "0 < ?t" by simp
  have "2 \<le> pi" by (rule pi_ge_two)
  then have "1 / ?t \<le> 100 / 4"
    by (simp add: field_simps)
  moreover have "ln (1 / ?t) \<le> 1 / ?t - 1"
    using pos by (intro ln_le_minus_one) simp
  moreover have "ln (1 / ?t) = - ln ?t"
    using pos by (simp only: ln_div zero_less_one ln_one) simp
  ultimately show ?thesis by linarith
qed

lemma log_prob_entry_example:
  "log_prob_entry LinearModel_default [[0, 0]] [1, 0] = - (1 / 100)"
  by (simp add: log_prob_entry_def LinearModel_default_def LinearModel_init_def)

lemma gaussian_log_joint_example:
  "gaussian_log_joint LinearModel_default [[0, 0]] [1, 0] \<le> - 14"
proof -
  have "gaussian_log_joint LinearModel_default [[0, 0]] [1, 0]
          = - (3 / 2) * ln (2 * pi * (1 / 100)) - 50"
    by (simp add: gaussian_log_joint_def normal_logpdf_def LinearModel_default_def
        LinearModel_init_def)
  then show ?thesis
    using ln_two_pi_hundredth by linarith
qed

lemma log_prob_entry_nonpos:
  assumes "0 < lik_variance self" and "0 < prior_variance self"
  shows "log_prob_entry self xs z \<le> 0"
proof -
  have "0 \<le> (\<Sum>r\<leftarrow>xs. (r ! 1 * z ! 0 + z ! 1 - r ! 0) ^ 2)"
    by (rule sum_list_nonneg) auto
  then have "(- (\<Sum>r\<leftarrow>xs. (r ! 1 * z ! 0 + z ! 1 - r ! 0) ^ 2)) / lik_variance self \<le> 0"
    using assms(1) by (simp add: divide_nonpos_pos)
  moreover have "0 \<le> prior_variance self * (z ! 0 * z ! 0 + z ! 1 * z ! 1)"
    using assms(2) by (intro mult_nonneg_nonneg add_nonneg_nonneg zero_le_square) simp
  ultimately show ?thesis
    by (simp add: log_prob_entry_def)
qed

text \<open>Over the reals, positive variances make every entry at most zero.\<close>

lemma log_prob_nonpos_real:
  assumes "two_cols xs" and "two_cols zs"
    and "0 < lik_variance self" and "0 < prior_variance self"
  shows "\<exists>v. log_prob self xs zs = Inr v \<and> length v = length zs \<and> list_all (\<lambda>a. a \<le> 0) v"
  using assms by (simp add: log_prob_two_cols log_prob_entry_nonpos list_all_iff)

text \<open>
  The two differ by more than an additive constant: with no data, moving the slope from
  0 to 1 changes the documented log-joint by \<open>-50\<close> and the computed value by \<open>-1/100\<close>.
\<close>

lemma gaussian_log_joint_difference:
  "gaussian_log_joint LinearModel_default [] [1, 0]
     - gaussian_log_joint LinearModel_default [] [0, 0] = - 50"
  by (simp add: gaussian_log_joint_def normal_logpdf_def LinearModel_default_def
      LinearModel_init_def)

lemma log_prob_entry_difference:
  "log_prob_entry LinearModel_default [] [1, 0]
     - log_prob_entry LinearModel_default [] [0, 0] = - (1 / 100)"
  by (simp add: log_prob_entry_def LinearModel_default_def LinearModel_init_def)

section \<open>Properties of \<open>build_toy_dataset\<close> and of the top level\<close>

lemma length_linspace_pts: "length (linspace_pts a b k) = k"
  by (simp add: linspace_pts_def)

lemma toy_inputs_neg: "n div 2 < 0 \<Longrightarrow> toy_inputs n = Inl ValueError"
  by (simp add: toy_inputs_def linspace_def)

lemma toy_inputs_nonneg:
  "0 \<le> n div 2 \<Longrightarrow> toy_inputs n
     = Inr (linspace_pts 0 2 (nat (n div 2)) @ linspace_pts 6 8 (nat (n div 2)))"
  by (simp add: toy_inputs_def linspace_def)

lemma toy_inputs_length:
  assumes "toy_inputs n = Inr x"
  shows "int (length x) = 2 * (n div 2)"
proof (cases "n div 2 < 0")
  case True
  with assms show ?thesis by (simp add: toy_inputs_neg)
next
  case False
  with assms have "x = linspace_pts 0 2 (nat (n div 2)) @ linspace_pts 6 8 (nat (n div 2))"
    by (simp add: toy_inputs_nonneg)
  with False show ?thesis by (simp add: length_linspace_pts)
qed

lemma toy_inputs_odd:
  assumes "odd n" and "toy_inputs n = Inr x"
  shows "int (length x) = n - 1" and "reshape_col x n = Inl ValueError"
proof -
  have "int (length x) = 2 * (n div 2)"
    by (rule toy_inputs_length [OF assms(2)])
  with assms(1) show len: "int (length x) = n - 1"
    by presburger
  then have "n \<noteq> - 1" and "int (length x) \<noteq> n"
    by auto
  then show "reshape_col x n = Inl ValueError"
    by (simp add: reshape_col_def)
qed

lemma toy_inputs_5: "toy_inputs 5 = Inr [0, 2, 6, 8]"
  by (simp add: toy_inputs_def linspace_def linspace_pts_def upt_rec numeral_eq_Suc)

lemma columns_of_concatenate:
  assumes "length y = length x"
  shows "map (\<lambda>r. r ! 0) (map2 (@) (map (\<lambda>a. [a]) y) (map (\<lambda>a. [a]) x)) = y"
    and "map (\<lambda>r. r ! 1) (map2 (@) (map (\<lambda>a. [a]) y) (map (\<lambda>a. [a]) x)) = x"
    and "two_cols (map2 (@) (map (\<lambda>a. [a]) y) (map (\<lambda>a. [a]) x))"
  using assms by (induction y x rule: list_induct2) (simp_all add: two_cols_def)

lemma build_toy_dataset_even:
  assumes "0 < n" and "even n"
    and "rvs fw 0 noise_std n (seed_rng fw 0) = (Inr noise, g)" and "length noise = nat n"
    and "toy_inputs n = Inr x"
  shows "build_toy_dataset fw n noise_std w
           = (Inr (Data (map2 (@) (map (\<lambda>a. [a]) (map2 (+) (map (\<lambda>v. (75 / 1000) * v) x) noise))
                                  (map (\<lambda>a. [a]) (map (\<lambda>v. (v - 4) / 4) x)))),
              \<lparr>rng = g, trace = trace w @ [SetSeed 0, NormRvs 0 noise_std n, NewData]\<rparr>)"
proof -
  have len: "int (length x) = n"
    using toy_inputs_length [OF assms(5)] assms(2) by simp
  then have len': "length x = length noise"
    using assms(4) by simp
  have add: "np_add (map (\<lambda>v. (75 / 1000) * v) x) noise
               = Inr (map2 (+) (map (\<lambda>v. (75 / 1000) * v) x) noise)"
    using len' by (simp add: np_add_def)
  have rx: "reshape_col (map (\<lambda>v. (v - 4) / 4) x) n = Inr (map (\<lambda>a. [a]) (map (\<lambda>v. (v - 4) / 4) x))"
    using len assms(1) by (simp add: reshape_col_def)
  have ry: "reshape_col (map2 (+) (map (\<lambda>v. (75 / 1000) * v) x) noise) n
              = Inr (map (\<lambda>a. [a]) (map2 (+) (map (\<lambda>v. (75 / 1000) * v) x) noise))"
    using len len' assms(1) by (simp add: reshape_col_def)
  have cc: "concatenate_1 (map (\<lambda>a. [a]) (map2 (+) (map (\<lambda>v. (75 / 1000) * v) x) noise))
                          (map (\<lambda>a. [a]) (map (\<lambda>v. (v - 4) / 4) x))
              = Inr (map2 (@) (map (\<lambda>a. [a]) (map2 (+) (map (\<lambda>v. (75 / 1000) * v) x) noise))
                              (map (\<lambda>a. [a]) (map (\<lambda>v. (v - 4) / 4) x)))"
    using len' by (simp add: concatenate_1_def)
  have rv: "norm_rvs fw 0 noise_std n (ed_set_seed fw 0 w)
              = (Inr noise, \<lparr>rng = g, trace = trace w @ [SetSeed 0, NormRvs 0 noise_std n]\<rparr>)"
    using assms(3) by (simp add: norm_rvs_def ed_set_seed_def emit_def)
  have em: "emit NewData \<lparr>rng = g, trace = trace w @ [SetSeed 0, NormRvs 0 noise_std n]\<rparr>
              = \<lparr>rng = g, trace = trace w @ [SetSeed 0, NormRvs 0 noise_std n, NewData]\<rparr>"
    by (simp add: emit_def)
  show ?thesis
    by (simp only: build_toy_dataset_def Let_def assms(5) rv add rx ry cc sum.case prod.case
        new_Data_def em)
qed

lemma build_toy_dataset_seed_only:
  "fst (build_toy_dataset fw n noise_std w1) = fst (build_toy_dataset fw n noise_std w2)
   \<and> rng (snd (build_toy_dataset fw n noise_std w1)) = rng (snd (build_toy_dataset fw n noise_std w2))"
  by (simp add: build_toy_dataset_def norm_rvs_def ed_set_seed_def emit_def new_Data_def Let_def
      split: sum.splits prod.splits)

lemma build_toy_dataset_odd:
  assumes "odd n"
  shows "\<exists>e. fst (build_toy_dataset fw n noise_std w) = Inl e"
proof (cases "toy_inputs n")
  case (Inl e)
  then show ?thesis by (simp add: build_toy_dataset_def)
next
  case (Inr x)
  have len: "int (length x) = 2 * (n div 2)"
    by (rule toy_inputs_length [OF Inr])
  with assms have "int (length x) \<noteq> n" by presburger
  moreover have "n \<noteq> - 1"
    using len by (auto)
  ultimately have "reshape_col (map (\<lambda>v. (v - 4) / 4) x) n = Inl ValueError"
    by (simp add: reshape_col_def)
  then show ?thesis
    using Inr
    by (simp add: build_toy_dataset_def Let_def split: sum.splits prod.splits)
qed

lemma trace_inference_run:
  "trace (snd (inference_run fw inference opts w)) = trace w @ [InferenceRun opts]"
  by (simp add: inference_run_def emit_def split: prod.splits)

lemma run_calls_append: "run_calls (a @ b) = run_calls a @ run_calls b"
  by (induction a rule: run_calls.induct) simp_all

lemma main_trace:
  assumes "rvs fw 0 (1 / 10) 40 (seed_rng fw 0) = (Inr noise, g)" and "length noise = 40"
  shows "trace (snd (main fw w))
           = trace w @ [SetSeed 42, NewLinearModel, NewVariational, VariationalAdd (Normal 2),
                        SetSeed 0, NormRvs 0 (1 / 10) 40, NewData, NewMFVI,
                        InferenceRun run_options]"
proof -
  obtain x where x: "toy_inputs 40 = Inr x"
    by (simp add: toy_inputs_nonneg)
  let ?w4 = "emit (VariationalAdd (Normal (num_vars LinearModel_default)))
               (emit NewVariational (emit NewLinearModel (ed_set_seed fw 42 w)))"
  let ?w5 = "\<lparr>rng = g, trace = trace ?w4 @ [SetSeed 0, NormRvs 0 (1 / 10) 40, NewData]\<rparr>"
  have "build_toy_dataset fw 40 (1 / 10) ?w4
          = (Inr (Data (map2 (@) (map (\<lambda>a. [a]) (map2 (+) (map (\<lambda>v. (75 / 1000) * v) x) noise))
                                 (map (\<lambda>a. [a]) (map (\<lambda>v. (v - 4) / 4) x)))),
             \<lparr>rng = g, trace = trace ?w4 @ [SetSeed 0, NormRvs 0 (1 / 10) 40, NewData]\<rparr>)"
    using assms x by (intro build_toy_dataset_even) simp_all
  then have "main fw w
          = inference_run fw
              (MFVI LinearModel_default [Normal (num_vars LinearModel_default)]
                 (Data (map2 (@) (map (\<lambda>a. [a]) (map2 (+) (map (\<lambda>v. (75 / 1000) * v) x) noise))
                                 (map (\<lambda>a. [a]) (map (\<lambda>v. (v - 4) / 4) x)))))
              run_options (emit NewMFVI ?w5)"
    by (simp only: main_def Let_def prod.case sum.case new_LinearModel_def new_Variational_def
        Variational_add_def new_MFVI_def append_Nil)
  then show ?thesis
    by (simp add: trace_inference_run emit_def ed_set_seed_def LinearModel_default_def
        LinearModel_init_def)
qed

lemma toy_inputs_4: "toy_inputs 4 = Inr [0, 2, 6, 8]"
  by (simp add: toy_inputs_def linspace_def linspace_pts_def upt_rec numeral_eq_Suc)

lemma build_toy_dataset_example:
  "build_toy_dataset quiet_framework 4 (1 / 10) start_world
     = (Inr (Data [[0, - 1], [3 / 20, - (1 / 2)], [9 / 20, 1 / 2], [3 / 5, 1]]),
        \<lparr>rng = (0, 4), trace = [SetSeed 0, NormRvs 0 (1 / 10) 4, NewData]\<rparr>)"
proof -
  have "rvs quiet_framework 0 (1 / 10) 4 (seed_rng quiet_framework 0)
          = (Inr [0, 0, 0, 0], (0, 4))"
    by (simp add: quiet_framework_def numeral_eq_Suc)
  then show ?thesis
    by (simp add: build_toy_dataset_even [where x = "[0, 2, 6, 8]" and noise = "[0, 0, 0, 0]"]
        toy_inputs_4 start_world_def)
qed

section \<open>Properties of \<open>log_prob\<close> on 32-bit floats\<close>

lemma two_cols_f32_slice:
  assumes "finite_two_cols t" and "k < 2"
  shows "slice_col_f32 k t = Inr (map (\<lambda>r. r ! k) t)"
proof -
  have "list_all (\<lambda>r. k < length r) t"
    using assms by (auto simp: finite_two_cols_def list_all_iff)
  then show ?thesis by (simp add: slice_col_f32_def)
qed

lemma matmul_f32_col_row:
  "matmul_f32 (expand_dims_1_f32 x) (expand_dims_0_f32 W)
     = Inr (map (\<lambda>a. map (\<lambda>w. fsum [fmul a w]) W) x)"
proof -
  have "map (\<lambda>j. fsum [fmul a (W ! j)]) [0..<length W] = map (\<lambda>w. fsum [fmul a w]) W" for a
    by (rule nth_equalityI) simp_all
  then show ?thesis
    by (simp add: matmul_f32_def expand_dims_1_f32_def expand_dims_0_f32_def ncols_f32_def
        list_all_iff comp_def)
qed

lemma reduce_sum_0_f32_map:
  "reduce_sum_0_f32 (length zs) (map (\<lambda>r. map (f r) zs) xs)
     = map (\<lambda>z. fsum (map (\<lambda>r. f r z) xs)) zs"
proof (induction xs)
  case Nil
  show ?case
    by (rule nth_equalityI) (simp_all add: reduce_sum_0_f32_def fsum_def)
next
  case (Cons r xs)
  have "reduce_sum_0_f32 (length zs) (map (\<lambda>r. map (f r) zs) (r # xs))
          = map2 fadd (map (f r) zs)
              (reduce_sum_0_f32 (length zs) (map (\<lambda>r. map (f r) zs) xs))"
    by (simp add: reduce_sum_0_f32_def)
  also have "\<dots> = map2 fadd (map (f r) zs) (map (\<lambda>z. fsum (map (\<lambda>r. f r z) xs)) zs)"
    by (simp only: Cons.IH)
  also have "\<dots> = map (\<lambda>z. fadd (f r z) (fsum (map (\<lambda>r. f r z) xs))) zs"
    by (rule map2_same_length_map)
  finally show ?case by (simp add: fsum_def)
qed

lemma log_prob_f32_two_cols:
  assumes "finite_two_cols xs" and "finite_two_cols zs"
  shows "log_prob_f32 self xs zs = Inr (map (log_prob_f32_entry self xs) zs)"
proof -
  let ?mu = "\<lambda>r z. fadd (fsum [fmul (r ! 1) (z ! 0)]) (z ! 1)"
  have y: "slice_col_f32 0 xs = Inr (map (\<lambda>r. r ! 0) xs)"
    and x: "slice_col_f32 1 xs = Inr (map (\<lambda>r. r ! 1) xs)"
    and W: "slice_col_f32 0 zs = Inr (map (\<lambda>z. z ! 0) zs)"
    and b: "slice_col_f32 1 zs = Inr (map (\<lambda>z. z ! 1) zs)"
    using assms by (simp_all add: two_cols_f32_slice)
  have mm: "matmul_f32 (expand_dims_1_f32 (map (\<lambda>r. r ! 1) xs))
                       (expand_dims_0_f32 (map (\<lambda>z. z ! 0) zs))
              = Inr (map (\<lambda>r. map (\<lambda>z. fsum [fmul (r ! 1) (z ! 0)]) zs) xs)"
    by (simp only: matmul_f32_col_row map_map comp_def)
  have mus: "add_rowvec_f32 (map (\<lambda>r. map (\<lambda>z. fsum [fmul (r ! 1) (z ! 0)]) zs) xs)
                            (map (\<lambda>z. z ! 1) zs)
               = map (\<lambda>r. map (?mu r) zs) xs"
    unfolding add_rowvec_f32_def map_map comp_def
    by (simp only: map2_same_length_map)
  have sub: "sub_colvec_f32 (map (\<lambda>r. map (?mu r) zs) xs)
                            (expand_dims_1_f32 (map (\<lambda>r. r ! 0) xs))
               = map (\<lambda>r. map (\<lambda>z. fsub (?mu r z) (r ! 0)) zs) xs"
    unfolding sub_colvec_f32_def expand_dims_1_f32_def map_map comp_def
    by (simp add: map2_same_length_map [where g = "\<lambda>r. map (?mu r) zs" and h = "\<lambda>r. [r ! 0]",
          simplified])
  have pow: "tf_pow_2_f32 (map (\<lambda>r. map (\<lambda>z. fsub (?mu r z) (r ! 0)) zs) xs)
               = map (\<lambda>r. map (\<lambda>z. residual_sq_f32 z r) zs) xs"
    by (simp add: tf_pow_2_f32_def residual_sq_f32_def comp_def Let_def)
  have lik: "reduce_sum_0_f32 (length zs) (map (\<lambda>r. map (\<lambda>z. residual_sq_f32 z r) zs) xs)
               = map (\<lambda>z. fsum (map (residual_sq_f32 z) xs)) zs"
    by (simp only: reduce_sum_0_f32_map)
  have prior: "reduce_sum_1_f32 (tf_mul_f32 zs zs) = map (\<lambda>z. fsum (map2 fmul z z)) zs"
    by (simp add: reduce_sum_1_f32_def tf_mul_f32_def map2_diag comp_def)
  have fin: "map2 fadd
               (map (\<lambda>a. fdiv_scalar (fneg a) (lik_variance self))
                    (map (\<lambda>z. fsum (map (residual_sq_f32 z) xs)) zs))
               (map (fmul (round_f32 (- prior_variance self)))
                    (map (\<lambda>z. fsum (map2 fmul z z)) zs))
             = map (log_prob_f32_entry self xs) zs"
    unfolding map_map comp_def log_prob_f32_entry_def by (rule map2_same_length_map)
  show ?thesis
    by (simp only: log_prob_f32_def Let_def y x W b mm mus sub pow lik prior fin sum.case)
qed

lemma rne_nonneg: "0 \<le> q \<Longrightarrow> 0 \<le> rne q"
  by (simp add: rne_def Let_def)

lemma rne_nonpos:
  assumes "q \<le> 0"
  shows "rne q \<le> 0"
proof (cases "q = 0")
  case True
  then show ?thesis by (simp add: rne_def)
next
  case False
  with assms have "q < 0" by simp
  then have "\<lfloor>q\<rfloor> \<le> - 1" by (simp add: floor_le_iff)
  then show ?thesis by (simp add: rne_def Let_def)
qed

lemma rne_minus: "rne (- q) = - rne q"
proof (cases "q = of_int \<lfloor>q\<rfloor>")
  case True
  then have "\<lfloor>- q\<rfloor> = - \<lfloor>q\<rfloor>"
    by (metis floor_of_int of_int_minus)
  with True show ?thesis
    by (simp add: rne_def Let_def)
next
  case False
  have lo: "of_int \<lfloor>q\<rfloor> < q"
    using False of_int_floor_le [of q] by linarith
  have hi: "q < of_int \<lfloor>q\<rfloor> + 1"
    by linarith
  have "- real_of_int \<lfloor>q\<rfloor> - 1 \<le> - q"
    using hi by linarith
  then have "of_int (- \<lfloor>q\<rfloor> - 1) \<le> - q"
    by simp
  moreover have "- q < - real_of_int \<lfloor>q\<rfloor>"
    using lo by linarith
  then have "- q < of_int (- \<lfloor>q\<rfloor> - 1) + 1"
    by simp
  ultimately have fl: "\<lfloor>- q\<rfloor> = - \<lfloor>q\<rfloor> - 1"
    by (rule floor_unique)
  show ?thesis
    using lo hi by (auto simp: rne_def Let_def fl)
qed

lemma f32_exponent_minus: "f32_exponent (- x) = f32_exponent x"
  by (simp add: f32_exponent_def)

lemma round_f32_minus: "round_f32 (- x) = fneg (round_f32 x)"
proof (cases "x = 0")
  case True
  then show ?thesis by (simp add: round_f32_def rne_def)
next
  case False
  then show ?thesis
    by (simp add: round_f32_def Let_def f32_exponent_minus rne_minus)
qed

lemma round_f32_not_NaN: "round_f32 x \<noteq> NaN"
  by (simp add: round_f32_def Let_def)

lemma round_f32_nonneg:
  assumes "0 \<le> x"
  shows "f32_nonneg (round_f32 x)"
proof (cases "x = 0")
  case True
  then show ?thesis by (simp add: round_f32_def rne_def)
next
  case False
  with assms have "0 < x" by simp
  moreover have "0 \<le> rne (x / 2 powi (f32_exponent x - 23))"
    using assms by (intro rne_nonneg) simp
  ultimately show ?thesis
    by (simp add: round_f32_def Let_def)
qed

lemma round_f32_le_zero:
  assumes "x \<le> 0"
  shows "f32_le_zero (round_f32 x)"
proof -
  have "rne (x / 2 powi (f32_exponent x - 23)) \<le> 0"
    using assms by (intro rne_nonpos) (simp add: divide_nonpos_pos)
  then have "real_of_int (rne (x / 2 powi (f32_exponent x - 23))) * 2 powi (f32_exponent x - 23) \<le> 0"
    by (simp add: mult_nonpos_nonneg)
  with assms show ?thesis
    by (simp add: round_f32_def Let_def)
qed

lemma f32_finite_pair:
  assumes "length z = 2" and "list_all f32_finite z"
  obtains a b where "z = [Fin a, Fin b]"
proof -
  from assms(1) obtain u v where z: "z = [u, v]"
    by (auto simp: length_Suc_conv numeral_2_eq_2)
  with assms(2) have "f32_finite u" and "f32_finite v" by simp_all
  then obtain a b where "u = Fin a" and "v = Fin b"
    by (cases u; cases v) simp_all
  with z that show ?thesis by simp
qed

lemma fadd_Fin_not_NaN: "a \<noteq> NaN \<Longrightarrow> fadd a (Fin b) \<noteq> NaN"
  by (cases a) (simp_all add: round_f32_not_NaN)

lemma fmul_self_nonneg: "a \<noteq> NaN \<Longrightarrow> f32_nonneg (fmul a a)"
  by (cases a) (simp_all add: round_f32_nonneg)

lemma fadd_nonneg: "f32_nonneg a \<Longrightarrow> f32_nonneg b \<Longrightarrow> f32_nonneg (fadd a b)"
  by (cases a; cases b) (simp_all add: round_f32_nonneg)

lemma fsum_nonneg: "list_all f32_nonneg v \<Longrightarrow> f32_nonneg (fsum v)"
  by (induction v) (simp_all add: fsum_def fadd_nonneg)

lemma fneg_nonneg: "f32_nonneg a \<Longrightarrow> f32_le_zero (fneg a)"
  by (cases a) simp_all

lemma fadd_le_zero: "f32_le_zero a \<Longrightarrow> f32_le_zero b \<Longrightarrow> f32_le_zero (fadd a b)"
  by (cases a; cases b) (simp_all add: round_f32_le_zero)

lemma fdiv_scalar_le_zero:
  assumes "f32_le_zero a" and "f32_pos (round_f32 s)"
  shows "f32_le_zero (fdiv_scalar a s)"
proof -
  from assms(2) obtain d where d: "round_f32 s = Fin d" "0 < d"
    by (cases "round_f32 s") simp_all
  with assms(1) show ?thesis
    by (cases a) (simp_all add: fdiv_scalar_def round_f32_le_zero divide_nonpos_pos)
qed

lemma fmul_neg_scalar_le_zero:
  assumes "f32_pos (round_f32 s)" and "f32_nonneg a"
  shows "f32_le_zero (fmul (round_f32 (- s)) a)"
proof -
  from assms(1) obtain d where d: "round_f32 s = Fin d" "0 < d"
    by (cases "round_f32 s") simp_all
  then have neg: "round_f32 (- s) = Fin (- d)"
    by (simp add: round_f32_minus)
  show ?thesis
  proof (cases a)
    case (Fin x)
    with assms(2) have "- d * x \<le> 0"
      using d(2) by (simp add: mult_nonneg_nonneg)
    then have "f32_le_zero (round_f32 (- d * x))"
      by (rule round_f32_le_zero)
    with Fin neg show ?thesis by simp
  next
    case PInf
    with neg d(2) show ?thesis by simp
  next
    case NInf
    with assms(2) show ?thesis by simp
  next
    case NaN
    with assms(2) show ?thesis by simp
  qed
qed

lemma residual_sq_f32_nonneg:
  assumes "length z = 2" and "list_all f32_finite z"
    and "length r = 2" and "list_all f32_finite r"
  shows "f32_nonneg (residual_sq_f32 z r)"
proof -
  from assms(1,2) obtain a b where z: "z = [Fin a, Fin b]"
    by (rule f32_finite_pair)
  from assms(3,4) obtain y x where r: "r = [Fin y, Fin x]"
    by (rule f32_finite_pair)
  have "fadd (round_f32 (x * a)) (Fin 0) \<noteq> NaN"
    by (intro fadd_Fin_not_NaN round_f32_not_NaN)
  then have "fadd (fadd (round_f32 (x * a)) (Fin 0)) (Fin b) \<noteq> NaN"
    by (rule fadd_Fin_not_NaN)
  then have "fadd (fadd (fadd (round_f32 (x * a)) (Fin 0)) (Fin b)) (Fin (- y)) \<noteq> NaN"
    by (rule fadd_Fin_not_NaN)
  then show ?thesis
    by (simp add: residual_sq_f32_def z r fsum_def fsub_def Let_def fmul_self_nonneg)
qed

lemma log_prob_f32_entry_le_zero:
  assumes "finite_two_cols xs" and "length z = 2" and "list_all f32_finite z"
    and "f32_pos (round_f32 (lik_variance self))"
    and "f32_pos (round_f32 (prior_variance self))"
  shows "f32_le_zero (log_prob_f32_entry self xs z)"
proof -
  have "list_all f32_nonneg (map (residual_sq_f32 z) xs)"
    using assms(1-3)
    by (auto simp: finite_two_cols_def list_all_iff intro!: residual_sq_f32_nonneg)
  then have lik: "f32_le_zero (fdiv_scalar (fneg (fsum (map (residual_sq_f32 z) xs)))
                                           (lik_variance self))"
    by (intro fdiv_scalar_le_zero fneg_nonneg fsum_nonneg assms(4))
  from assms(2,3) obtain a b where z: "z = [Fin a, Fin b]"
    by (rule f32_finite_pair)
  have "list_all f32_nonneg (map2 fmul z z)"
    by (simp add: z round_f32_nonneg)
  then have "f32_le_zero (fmul (round_f32 (- prior_variance self)) (fsum (map2 fmul z z)))"
    by (intro fmul_neg_scalar_le_zero fsum_nonneg assms(5))
  with lik show ?thesis
    by (simp add: log_prob_f32_entry_def fadd_le_zero)
qed

lemma f32_exponent_small: "\<bar>x\<bar> < 2 powi (- 125) \<Longrightarrow> f32_exponent x = - 126"
  by (simp add: f32_exponent_def upto_rec1 [of "- 126" 127])

lemma round_f32_underflow:
  assumes "\<bar>x\<bar> < 2 powi (- 150)"
  shows "round_f32 x = Fin 0"
proof -
  have "(2::real) powi (- 150) < 2 powi (- 125)"
    by (simp add: power_int_minus field_simps)
  with assms have e: "f32_exponent x = - 126"
    by (intro f32_exponent_small) linarith
  have q: "\<bar>x / 2 powi (- 149)\<bar> < 1 / 2"
    using assms by (simp add: power_int_minus field_simps abs_mult)
  have "rne (x / 2 powi (- 149)) = 0"
  proof (cases "0 \<le> x / 2 powi (- 149)")
    case True
    with q have "\<lfloor>x / 2 powi (- 149)\<rfloor> = 0" by (intro floor_unique) auto
    with q True show ?thesis by (simp add: rne_def)
  next
    case False
    with q have "\<lfloor>x / 2 powi (- 149)\<rfloor> = - 1" by (intro floor_unique) auto
    with q False show ?thesis by (auto simp: rne_def)
  qed
  then show ?thesis
    by (simp add: round_f32_def e)
qed

lemma round_f32_0: "round_f32 0 = Fin 0"
  by (simp add: round_f32_def rne_def)

lemma round_f32_tiny: "round_f32 (1 / 10 ^ 50) = Fin 0"
  by (rule round_f32_underflow) (simp add: power_int_minus field_simps)

lemma f32_exponent_1: "f32_exponent 1 = 0"
  by (simp add: f32_exponent_def upto_rec1 power_int_minus)

lemma round_f32_1: "round_f32 1 = Fin 1"
  by (simp add: round_f32_def f32_exponent_1 rne_def power_int_minus)

lemma f32_exponent_quarter: "f32_exponent (1 / 4) = - 2"
  by (simp add: f32_exponent_def upto_rec1 power_int_minus)

lemma round_f32_quarter: "round_f32 (1 / 4) = Fin (1 / 4)"
  by (simp add: round_f32_def f32_exponent_quarter rne_def power_int_minus)

lemma f32_exponent_hundredth: "f32_exponent (1 / 100) = - 7"
  by (simp add: f32_exponent_def upto_rec1 power_int_minus)

lemma round_f32_hundredth: "round_f32 (1 / 100) = Fin (10737418 / 2 ^ 30)"
  by (simp add: round_f32_def f32_exponent_hundredth rne_def power_int_minus)

section \<open>The claims\<close>

text \<open>
  C1. The claim: for every data table \<open>xs\<close> and every matrix of samples \<open>zs\<close>, each entry
  of \<open>log_prob(xs, zs)\<close> equals the Gaussian log-likelihood of the data under
  \<open>lik_variance\<close> plus the Gaussian log-prior of the weights under \<open>prior_variance\<close>.
  The code does not compute it: it divides the squared residuals by \<open>lik_variance\<close>
  (not by twice it), multiplies the squared weights by \<open>prior_variance\<close> (instead of
  dividing by twice it) and has no normalising terms. For the default model, the single
  data point \<open>(y, x) = (0, 0)\<close> and the single sample \<open>(1, 0)\<close>, \<open>log_prob\<close> returns
  \<open>-1/100\<close>, while the documented log-joint is at most \<open>-14\<close>.
\<close>

theorem log_prob_not_gaussian_log_joint:
  "log_prob LinearModel_default [[0, 0]] [[1, 0]] = Inr [- (1 / 100)]
   \<and> gaussian_log_joint LinearModel_default [[0, 0]] [1, 0] \<le> - 14
   \<and> log_prob LinearModel_default [[0, 0]] [[1, 0]]
       \<noteq> Inr (map (gaussian_log_joint LinearModel_default [[0, 0]]) [[1, 0]])"
proof -
  have "log_prob LinearModel_default [[0, 0]] [[1, 0]]
          = Inr (map (log_prob_entry LinearModel_default [[0, 0]]) [[1, 0]])"
    by (rule log_prob_two_cols) (simp_all add: two_cols_def)
  then have code: "log_prob LinearModel_default [[0, 0]] [[1, 0]] = Inr [- (1 / 100)]"
    by (simp add: log_prob_entry_example)
  have doc: "gaussian_log_joint LinearModel_default [[0, 0]] [1, 0] \<le> - 14"
    by (rule gaussian_log_joint_example)
  then have "gaussian_log_joint LinearModel_default [[0, 0]] [1, 0] \<noteq> - (1 / 100)"
    by linarith
  with code doc show ?thesis
    by simp
qed

text \<open>
  C2. For every even positive \<open>n_data\<close>, when the sampler returns \<open>n_data\<close> noise values,
  \<open>build_toy_dataset\<close> returns a table of \<open>n_data\<close> rows of two entries each, whose
  column 0 is the output \<open>y = 0.075 * x + noise\<close> for the unscaled inputs \<open>x\<close> and
  whose column 1 is the input \<open>(x - 4) / 4\<close>.
\<close>

theorem build_toy_dataset_table:
  assumes "0 < n" and "even n"
    and "rvs fw 0 noise_std n (seed_rng fw 0) = (Inr noise, g)" and "length noise = nat n"
  shows "\<exists>x rows w'. toy_inputs n = Inr x
           \<and> build_toy_dataset fw n noise_std w = (Inr (Data rows), w')
           \<and> length rows = nat n \<and> two_cols rows
           \<and> map (\<lambda>r. r ! 0) rows = map2 (+) (map (\<lambda>v. (75 / 1000) * v) x) noise
           \<and> map (\<lambda>r. r ! 1) rows = map (\<lambda>v. (v - 4) / 4) x"
proof -
  from assms(1) have "0 \<le> n div 2" by simp
  then obtain x where x: "toy_inputs n = Inr x"
    by (simp add: toy_inputs_nonneg)
  have len: "length x = length noise"
    using toy_inputs_length [OF x] assms(2,4) by simp
  let ?y = "map2 (+) (map (\<lambda>v. (75 / 1000) * v) x) noise"
  let ?x = "map (\<lambda>v. (v - 4) / 4) x"
  have len': "length ?y = length ?x"
    using len by simp
  have "length (map2 (@) (map (\<lambda>a. [a]) ?y) (map (\<lambda>a. [a]) ?x)) = nat n"
    using len assms(4) by simp
  with build_toy_dataset_even [OF assms x, of w] columns_of_concatenate [OF len'] x
  show ?thesis by blast
qed

theorem build_toy_dataset_table_witness:
  "(0::int) < 4 \<and> even (4::int)
   \<and> rvs quiet_framework 0 (1 / 10) 4 (seed_rng quiet_framework 0) = (Inr [0, 0, 0, 0], (0, 4))
   \<and> length [0, 0, 0, 0 :: real] = nat 4
   \<and> (\<exists>x rows w'. toy_inputs 4 = Inr x
           \<and> build_toy_dataset quiet_framework 4 (1 / 10) start_world = (Inr (Data rows), w')
           \<and> length rows = nat 4 \<and> two_cols rows
           \<and> map (\<lambda>r. r ! 0) rows = map2 (+) (map (\<lambda>v. (75 / 1000) * v) x) [0, 0, 0, 0]
           \<and> map (\<lambda>r. r ! 1) rows = map (\<lambda>v. (v - 4) / 4) x)"
proof -
  have h: "rvs quiet_framework 0 (1 / 10) 4 (seed_rng quiet_framework 0)
             = (Inr [0, 0, 0, 0], (0, 4))"
    by (simp add: quiet_framework_def numeral_eq_Suc)
  have l: "length [0, 0, 0, 0 :: real] = nat 4" by simp
  show ?thesis
    using build_toy_dataset_table [of 4 quiet_framework "1 / 10" "[0, 0, 0, 0]" "(0, 4)"
        start_world, OF _ _ h l] h
    by simp
qed

text \<open>
  C3. The model fixes \<open>num_vars = 2\<close> whatever the variances, and for a data table with
  two columns and a sample matrix with two columns \<open>log_prob\<close> uses column 0 of \<open>zs\<close> as
  the slope and column 1 as the intercept, for every row \<open>z\<close> of \<open>zs\<close>: the predicted
  output for data row \<open>r\<close> is \<open>r[1] * z[0] + z[1]\<close>, and the entry that \<open>log_prob\<close> returns
  for \<open>z\<close> is built from the residuals \<open>r[1] * z[0] + z[1] - r[0]\<close>.
\<close>

theorem log_prob_slope_intercept:
  assumes "two_cols xs" and "two_cols zs"
  shows "num_vars (LinearModel_init lv pv) = 2
         \<and> log_prob_mus xs zs = Inr (map (\<lambda>r. map (\<lambda>z. r ! 1 * z ! 0 + z ! 1) zs) xs)
         \<and> log_prob self xs zs
             = Inr (map (\<lambda>z. (- (\<Sum>r\<leftarrow>xs. (r ! 1 * z ! 0 + z ! 1 - r ! 0) ^ 2))
                                / lik_variance self
                              + (- prior_variance self) * (z ! 0 * z ! 0 + z ! 1 * z ! 1)) zs)"
proof -
  have "log_prob_entry self xs
          = (\<lambda>z. (- (\<Sum>r\<leftarrow>xs. (r ! 1 * z ! 0 + z ! 1 - r ! 0) ^ 2)) / lik_variance self
                 + (- prior_variance self) * (z ! 0 * z ! 0 + z ! 1 * z ! 1))"
    by (rule ext) (simp only: log_prob_entry_def)
  with log_prob_two_cols [OF assms, of self]
  have "log_prob self xs zs
             = Inr (map (\<lambda>z. (- (\<Sum>r\<leftarrow>xs. (r ! 1 * z ! 0 + z ! 1 - r ! 0) ^ 2))
                                / lik_variance self
                              + (- prior_variance self) * (z ! 0 * z ! 0 + z ! 1 * z ! 1)) zs)"
    by (simp only:)
  moreover have "num_vars (LinearModel_init lv pv) = 2"
    by (simp add: LinearModel_init_def)
  moreover note log_prob_mus_two_cols [OF assms]
  ultimately show ?thesis by blast
qed

theorem log_prob_slope_intercept_witness:
  "two_cols [[7, 2], [9, 3]] \<and> two_cols [[10, 1], [20, 5]]
   \<and> num_vars (LinearModel_init (1 / 100) (1 / 100)) = 2
   \<and> log_prob_mus [[7, 2], [9, 3]] [[10, 1], [20, 5]] = Inr [[21, 45], [31, 65]]
   \<and> log_prob LinearModel_default [[7, 2], [9, 3]] [[10, 1], [20, 5]]
       = Inr [- (6800101 / 100), - (45800425 / 100)]"
  using log_prob_slope_intercept [of "[[7, 2], [9, 3]]" "[[10, 1], [20, 5]]" "1 / 100" "1 / 100"
      LinearModel_default]
  by (simp add: two_cols_def LinearModel_default_def LinearModel_init_def)

text \<open>
  C4. For every data table with two columns and every sample matrix with two columns,
  the call of \<open>log_prob\<close> raises nothing: it returns a vector with one entry per sample,
  and the model object (\<open>lik_variance\<close>, \<open>prior_variance\<close>, \<open>num_vars\<close>) is unchanged.
\<close>

theorem log_prob_total_pure:
  assumes "two_cols xs" and "two_cols zs"
  shows "\<exists>v. log_prob_call self xs zs = (Inr v, self) \<and> length v = length zs"
  using assms by (simp add: log_prob_call_def log_prob_two_cols)

theorem log_prob_total_pure_witness:
  "two_cols [[1, 2]] \<and> two_cols [[1, 0], [0, 1]]
   \<and> (\<exists>v. log_prob_call LinearModel_default [[1, 2]] [[1, 0], [0, 1]]
             = (Inr v, LinearModel_default) \<and> length v = 2)"
  using log_prob_total_pure [of "[[1, 2]]" "[[1, 0], [0, 1]]" LinearModel_default]
  by (auto simp: two_cols_def)

text \<open>
  C5. The claim: the top level constructs the toy data, then instantiates the model
  object, then the variational family, then runs the inference loop. In the script the
  toy data is built after the model object and the variational family: no call of
  \<open>build_toy_dataset\<close> (its seeding, its sampling, its \<open>ed.Data\<close>) comes before the
  construction of the model.
\<close>

theorem main_order_counterexample:
  "\<not> precedes (SetSeed 0) NewLinearModel (trace (snd (main quiet_framework start_world)))
   \<and> \<not> precedes (NormRvs 0 (1 / 10) 40) NewLinearModel
          (trace (snd (main quiet_framework start_world)))
   \<and> \<not> precedes NewData NewLinearModel (trace (snd (main quiet_framework start_world)))"
proof -
  have "rvs quiet_framework 0 (1 / 10) 40 (seed_rng quiet_framework 0)
          = (Inr (replicate 40 0), (0, 40))"
    by (simp add: quiet_framework_def)
  then have "trace (snd (main quiet_framework start_world))
          = trace start_world @ [SetSeed 42, NewLinearModel, NewVariational,
              VariationalAdd (Normal 2), SetSeed 0, NormRvs 0 (1 / 10) 40, NewData, NewMFVI,
              InferenceRun run_options]"
    by (rule main_trace) simp
  then show ?thesis
    by (simp add: precedes_def start_world_def)
qed

text \<open>
  C5, amended. When the sampler returns the 40 noise values asked for, the top level is
  one linear sequence of calls in this order: seed 42, the model object, the variational
  family and its \<open>Normal(2)\<close> factor, the toy data (seed 0, the noise, \<open>ed.Data\<close>), the
  inference object, the run loop.
\<close>

theorem main_order:
  assumes "rvs fw 0 (1 / 10) 40 (seed_rng fw 0) = (Inr noise, g)" and "length noise = 40"
  shows "trace (snd (main fw w))
           = trace w @ [SetSeed 42, NewLinearModel, NewVariational, VariationalAdd (Normal 2),
                        SetSeed 0, NormRvs 0 (1 / 10) 40, NewData, NewMFVI,
                        InferenceRun run_options]"
  using assms by (rule main_trace)

theorem main_order_witness:
  "rvs quiet_framework 0 (1 / 10) 40 (seed_rng quiet_framework 0)
     = (Inr (replicate 40 0), (0, 40))
   \<and> length (replicate 40 (0::real)) = 40
   \<and> trace (snd (main quiet_framework start_world))
       = [SetSeed 42, NewLinearModel, NewVariational, VariationalAdd (Normal 2),
          SetSeed 0, NormRvs 0 (1 / 10) 40, NewData, NewMFVI, InferenceRun run_options]"
proof -
  have h: "rvs quiet_framework 0 (1 / 10) 40 (seed_rng quiet_framework 0)
             = (Inr (replicate 40 0), (0, 40))"
    by (simp add: quiet_framework_def)
  have l: "length (replicate 40 (0::real)) = 40" by simp
  show ?thesis
    using main_order [OF h l, of start_world] h
    by (simp add: start_world_def)
qed

text \<open>
  C6. The script calls the run loop once, and the options it passes are exactly
  \<open>n_iter = 250\<close>, \<open>n_minibatch = 5\<close> and \<open>n_print = 10\<close>.
\<close>

theorem run_call_options:
  assumes "rvs fw 0 (1 / 10) 40 (seed_rng fw 0) = (Inr noise, g)" and "length noise = 40"
  shows "run_calls (trace (snd (main fw w)))
           = run_calls (trace w) @ [[(''n_iter'', 250), (''n_minibatch'', 5), (''n_print'', 10)]]"
  by (simp add: main_trace [OF assms] run_calls_append run_options_def)

theorem run_call_options_witness:
  "rvs quiet_framework 0 (1 / 10) 40 (seed_rng quiet_framework 0)
     = (Inr (replicate 40 0), (0, 40))
   \<and> length (replicate 40 (0::real)) = 40
   \<and> run_calls (trace (snd (main quiet_framework start_world)))
       = [[(''n_iter'', 250), (''n_minibatch'', 5), (''n_print'', 10)]]"
proof -
  have h: "rvs quiet_framework 0 (1 / 10) 40 (seed_rng quiet_framework 0)
             = (Inr (replicate 40 0), (0, 40))"
    by (simp add: quiet_framework_def)
  have l: "length (replicate 40 (0::real)) = 40" by simp
  show ?thesis
    using run_call_options [OF h l, of start_world] h
    by (simp add: start_world_def)
qed

text \<open>
  C8. \<open>build_toy_dataset\<close> is deterministic: called with the same arguments in any two
  global states (whatever seed was set and whatever was drawn before), it returns the
  same result and leaves the generator in the same state.
\<close>

theorem build_toy_dataset_deterministic:
  "fst (build_toy_dataset fw n noise_std w1) = fst (build_toy_dataset fw n noise_std w2)
   \<and> rng (snd (build_toy_dataset fw n noise_std w1))
       = rng (snd (build_toy_dataset fw n noise_std w2))"
  by (rule build_toy_dataset_seed_only)

text \<open>
  C9. For every odd \<open>n_data\<close>, \<open>build_toy_dataset\<close> raises instead of returning a
  dataset; whenever the two calls of \<open>linspace\<close> succeed they give \<open>n_data - 1\<close> values
  together, which cannot be reshaped to \<open>n_data\<close> rows.
\<close>

theorem build_toy_dataset_odd_fails:
  assumes "odd n"
  shows "(\<exists>e. fst (build_toy_dataset fw n noise_std w) = Inl e)
         \<and> (\<forall>x. toy_inputs n = Inr x
                \<longrightarrow> int (length x) = n - 1 \<and> reshape_col x n = Inl ValueError)"
  using assms by (simp add: build_toy_dataset_odd toy_inputs_odd)

theorem build_toy_dataset_odd_fails_witness:
  "odd (5::int)
   \<and> (\<exists>e. fst (build_toy_dataset quiet_framework 5 (1 / 10) start_world) = Inl e)
   \<and> toy_inputs 5 = Inr [0, 2, 6, 8]
   \<and> int (length [0, 2, 6, 8 :: real]) = 5 - 1
   \<and> reshape_col [0, 2, 6, 8] 5 = Inl ValueError"
  using build_toy_dataset_odd_fails [of 5 quiet_framework "1 / 10" start_world] toy_inputs_5
  by simp

text \<open>
  C10. The claim: whenever \<open>lik_variance > 0\<close> and \<open>prior_variance > 0\<close>, every entry of
  the vector that \<open>log_prob\<close> returns is at most zero. On 32-bit floats it fails: a
  positive \<open>lik_variance\<close> of \<open>1e-50\<close> becomes zero when converted, the sum of squared
  residuals of the data point \<open>(0, 0)\<close> under the sample \<open>(1, 0)\<close> is zero, and zero
  over zero is NaN, which is not at most zero.
\<close>

theorem log_prob_nonpos_counterexample:
  "0 < lik_variance (LinearModel_init (1 / 10 ^ 50) (1 / 4))
   \<and> 0 < prior_variance (LinearModel_init (1 / 10 ^ 50) (1 / 4))
   \<and> log_prob_f32 (LinearModel_init (1 / 10 ^ 50) (1 / 4)) [[Fin 0, Fin 0]] [[Fin 1, Fin 0]]
       = Inr [NaN]
   \<and> \<not> f32_le_zero NaN"
proof -
  define M where "M = LinearModel_init (1 / 10 ^ 50) (1 / 4)"
  have lv: "round_f32 (lik_variance M) = Fin 0"
    unfolding M_def LinearModel_init_def LinearModel.simps by (rule round_f32_tiny)
  have pv: "round_f32 (- prior_variance M) = Fin (- (1 / 4))"
    unfolding M_def LinearModel_init_def LinearModel.simps
    by (simp only: round_f32_minus round_f32_quarter fneg.simps)
  have "log_prob_f32 M [[Fin 0, Fin 0]] [[Fin 1, Fin 0]]
          = Inr (map (log_prob_f32_entry M [[Fin 0, Fin 0]]) [[Fin 1, Fin 0]])"
    by (rule log_prob_f32_two_cols) (simp_all add: finite_two_cols_def)
  moreover have "log_prob_f32_entry M [[Fin 0, Fin 0]] [Fin 1, Fin 0] = NaN"
    by (simp add: log_prob_f32_entry_def residual_sq_f32_def fsum_def fsub_def
        fdiv_scalar_def lv pv round_f32_0 round_f32_1)
  ultimately have "log_prob_f32 M [[Fin 0, Fin 0]] [[Fin 1, Fin 0]] = Inr [NaN]"
    by simp
  then show ?thesis
    by (simp add: M_def LinearModel_init_def)
qed

text \<open>
  C10, amended. Whenever \<open>lik_variance\<close> and \<open>prior_variance\<close> are positive and finite
  after conversion to 32-bit floats (neither underflows to zero nor overflows to
  infinity) and the entries of \<open>xs\<close> and \<open>zs\<close> are finite, \<open>log_prob\<close> returns a vector
  whose entries are all at most zero, possibly minus infinity, and never NaN.
\<close>

theorem log_prob_f32_nonpos:
  assumes "finite_two_cols xs" and "finite_two_cols zs"
    and "f32_pos (round_f32 (lik_variance self))"
    and "f32_pos (round_f32 (prior_variance self))"
  shows "\<exists>v. log_prob_f32 self xs zs = Inr v \<and> length v = length zs
              \<and> list_all f32_le_zero v"
proof -
  have "list_all f32_le_zero (map (log_prob_f32_entry self xs) zs)"
    using assms(2)
    by (auto simp: finite_two_cols_def list_all_iff
        intro!: log_prob_f32_entry_le_zero assms(1,3,4))
  then show ?thesis
    by (simp add: log_prob_f32_two_cols [OF assms(1,2)])
qed

theorem log_prob_f32_nonpos_witness:
  "finite_two_cols [[Fin 1, Fin 2], [Fin 3, Fin 4]]
   \<and> finite_two_cols [[Fin 1, Fin 0], [Fin 0, Fin 1], [Fin 2, Fin 2]]
   \<and> f32_pos (round_f32 (lik_variance LinearModel_default))
   \<and> f32_pos (round_f32 (prior_variance LinearModel_default))
   \<and> (\<exists>v. log_prob_f32 LinearModel_default [[Fin 1, Fin 2], [Fin 3, Fin 4]]
              [[Fin 1, Fin 0], [Fin 0, Fin 1], [Fin 2, Fin 2]] = Inr v
            \<and> length v = 3 \<and> list_all f32_le_zero v)"
proof -
  have p: "f32_pos (round_f32 (lik_variance LinearModel_default))"
    "f32_pos (round_f32 (prior_variance LinearModel_default))"
    by (simp_all add: LinearModel_default_def LinearModel_init_def round_f32_hundredth)
  have c: "finite_two_cols [[Fin 1, Fin 2], [Fin 3, Fin 4]]"
    "finite_two_cols [[Fin 1, Fin 0], [Fin 0, Fin 1], [Fin 2, Fin 2]]"
    by (simp_all add: finite_two_cols_def)
  show ?thesis
    using log_prob_f32_nonpos [OF c p] p c by auto
qed

end
